theory Spec2Isabelle
  imports Main "HOL-Library.Word"
begin

unbundle bit_operations_syntax

section \<open>Machine types and text output\<close>

type_synonym uint8 = "8 word"
type_synonym uint16 = "16 word"
type_synonym uint32 = "32 word"

text \<open>
  A \<^verbatim>\<open>StringInfo\<close> is an extensible text buffer; only its contents matter here.
  \<^verbatim>\<open>appendStringInfo(buf, fmt, ...)\<close> and \<^verbatim>\<open>appendStringInfoString(buf, s)\<close>
  (lib/stringinfo.c, not among the sources) put text after the contents that are
  already there, enlarging the buffer as needed. Running out of memory while doing so
  is outside the model.
\<close>

type_synonym StringInfo = string

definition appendStringInfoString :: "StringInfo \<Rightarrow> string \<Rightarrow> StringInfo" where
  "appendStringInfoString buf s = buf @ s"

text \<open>
  The conversions of the format strings. \<^verbatim>\<open>%u\<close> prints an \<^verbatim>\<open>unsigned int\<close> in
  decimal without leading zeros, \<^verbatim>\<open>%d\<close> an \<^verbatim>\<open>int\<close> with a minus sign when it is
  negative. A 16-bit argument reaches either of them after the default argument
  promotion to \<^verbatim>\<open>int\<close>, which keeps its value.
\<close>

definition digit_char :: "nat \<Rightarrow> char" where
  "digit_char d = ''0123456789'' ! d"

fun dec_digits :: "nat \<Rightarrow> string" where
  "dec_digits n =
     (if n < 10 then [digit_char n]
      else dec_digits (n div 10) @ [digit_char (n mod 10)])"

declare dec_digits.simps [simp del]

definition fmt_u :: "uint32 \<Rightarrow> string" where
  "fmt_u w = dec_digits (unat w)"

definition fmt_d :: "uint32 \<Rightarrow> string" where
  "fmt_d w =
     (if sint w < 0 then CHR ''-'' # dec_digits (nat (- sint w))
      else dec_digits (nat (sint w)))"

definition promote16 :: "uint16 \<Rightarrow> uint32" where
  "promote16 x = ucast x"

section \<open>Record headers\<close>

text \<open>
  The structures that the description routines read. Their declarations
  (access/nbtree.h, access/gist_private.h, storage/relfilenode.h, storage/itemptr.h)
  are not among the sources; each record has the fields that the routines read, under
  the names the routines use (with the structure's name in front where two structures
  share a field name). Object identifiers, block numbers, transaction identifiers and
  levels are 32-bit unsigned, printed with \<^verbatim>\<open>%u\<close>; offset numbers and the page count
  of a split are 16-bit unsigned, as \<^verbatim>\<open>OffsetNumber\<close> and \<^verbatim>\<open>uint16\<close> are. These are
  the header fields of section 4.1 of the specification, the target of an insert and of
  a half-dead record being a relation locator with an item address. A structure of the
  absent headers may declare further fields; the routines do not read them, and the
  records below do not have them.
\<close>

record RelFileNode =
  spcNode :: uint32
  dbNode :: uint32
  relNode :: uint32

text \<open>
  Modelled from the spec: storage/itemptr.h is missing; an item address is a pair of a
  block number and an offset number, which \<^verbatim>\<open>ItemPointerGetBlockNumber\<close> and
  \<^verbatim>\<open>ItemPointerGetOffsetNumber\<close> read.
\<close>

record ItemPointerData =
  ip_blkid :: uint32
  ip_posid :: uint16

definition ItemPointerGetBlockNumber :: "ItemPointerData \<Rightarrow> uint32" where
  "ItemPointerGetBlockNumber p = ip_blkid p"

definition ItemPointerGetOffsetNumber :: "ItemPointerData \<Rightarrow> uint16" where
  "ItemPointerGetOffsetNumber p = ip_posid p"

record xl_btreetid =
  node :: RelFileNode
  tid :: ItemPointerData

record xl_btree_insert =
  target :: xl_btreetid

record xl_btree_split =
  split_node :: RelFileNode
  split_leftsib :: uint32
  split_rightsib :: uint32
  split_rnext :: uint32
  split_level :: uint32
  split_firstright :: uint16

record xl_btree_vacuum =
  vacuum_node :: RelFileNode
  vacuum_block :: uint32
  vacuum_lastBlockVacuumed :: uint32

record xl_btree_delete =
  delete_node :: RelFileNode
  delete_block :: uint32
  delete_hnode :: RelFileNode

record xl_btree_mark_page_halfdead =
  halfdead_target :: xl_btreetid
  halfdead_topparent :: uint32
  halfdead_leafblk :: uint32
  halfdead_leftblk :: uint32
  halfdead_rightblk :: uint32

record xl_btree_unlink_page =
  unlink_node :: RelFileNode
  unlink_deadblk :: uint32
  unlink_leftsib :: uint32
  unlink_rightsib :: uint32
  unlink_btpo_xact :: uint32
  unlink_leafblk :: uint32
  unlink_leafleftsib :: uint32
  unlink_leafrightsib :: uint32
  unlink_topparent :: uint32

record xl_btree_newroot =
  newroot_node :: RelFileNode
  newroot_rootblk :: uint32
  newroot_level :: uint32

record xl_btree_reuse_page =
  reuse_node :: RelFileNode
  reuse_latestRemovedXid :: uint32

record gistxlogPageUpdate =
  update_node :: RelFileNode
  update_blkno :: uint32

record gistxlogPageSplit =
  gsplit_node :: RelFileNode
  gsplit_origblkno :: uint32
  gsplit_npage :: uint16

section \<open>Log records and the constants of the absent headers\<close>

text \<open>
  \<^verbatim>\<open>XLogRecGetData(record)\<close> is a \<^verbatim>\<open>char *\<close>: an address, with no length. The
  memory from that address on is a total function from offsets to bytes, of which the
  first \<open>xl_len\<close> belong to the record.
\<close>

type_synonym memory = "nat \<Rightarrow> uint8"

record XLogRecord =
  xl_info :: uint8
  xl_len :: uint32
  xl_data :: memory

definition XLogRecGetData :: "XLogRecord \<Rightarrow> memory" where
  "XLogRecGetData r = xl_data r"

text \<open>
  The kind tags \<^verbatim>\<open>XLOG_BTREE_*\<close> (access/nbtree.h), \<^verbatim>\<open>XLOG_GIST_*\<close>
  (access/gist_private.h) and the mask \<^verbatim>\<open>XLR_INFO_MASK\<close> (access/xlog.h) are
  defined in headers that are not among the sources, so they are parameters.
\<close>

record rmgr_consts =
  XLR_INFO_MASK :: uint8
  XLOG_BTREE_INSERT_LEAF :: uint8
  XLOG_BTREE_INSERT_UPPER :: uint8
  XLOG_BTREE_INSERT_META :: uint8
  XLOG_BTREE_SPLIT_L :: uint8
  XLOG_BTREE_SPLIT_R :: uint8
  XLOG_BTREE_SPLIT_L_ROOT :: uint8
  XLOG_BTREE_SPLIT_R_ROOT :: uint8
  XLOG_BTREE_VACUUM :: uint8
  XLOG_BTREE_DELETE :: uint8
  XLOG_BTREE_MARK_PAGE_HALFDEAD :: uint8
  XLOG_BTREE_UNLINK_PAGE :: uint8
  XLOG_BTREE_UNLINK_PAGE_META :: uint8
  XLOG_BTREE_NEWROOT :: uint8
  XLOG_BTREE_REUSE_PAGE :: uint8
  XLOG_GIST_PAGE_UPDATE :: uint8
  XLOG_GIST_PAGE_SPLIT :: uint8
  XLOG_GIST_CREATE_INDEX :: uint8

text \<open>
  A cast \<^verbatim>\<open>(xl_btree_insert *) rec\<close> reads the memory at \<open>rec\<close> through the
  layout that the compiler gives the structure. The layouts belong to the absent
  headers and the platform, so they are parameters too: one total function per
  structure, since a cast cannot fail.
\<close>

record struct_layout =
  as_xl_btree_insert :: "memory \<Rightarrow> xl_btree_insert"
  as_xl_btree_split :: "memory \<Rightarrow> xl_btree_split"
  as_xl_btree_vacuum :: "memory \<Rightarrow> xl_btree_vacuum"
  as_xl_btree_delete :: "memory \<Rightarrow> xl_btree_delete"
  as_xl_btree_mark_page_halfdead :: "memory \<Rightarrow> xl_btree_mark_page_halfdead"
  as_xl_btree_unlink_page :: "memory \<Rightarrow> xl_btree_unlink_page"
  as_xl_btree_newroot :: "memory \<Rightarrow> xl_btree_newroot"
  as_xl_btree_reuse_page :: "memory \<Rightarrow> xl_btree_reuse_page"
  as_gistxlogPageUpdate :: "memory \<Rightarrow> gistxlogPageUpdate"
  as_gistxlogPageSplit :: "memory \<Rightarrow> gistxlogPageSplit"
  as_RelFileNode :: "memory \<Rightarrow> RelFileNode"

section \<open>nbtdesc.c\<close>

definition out_target :: "StringInfo \<Rightarrow> xl_btreetid \<Rightarrow> StringInfo" where
  "out_target buf t =
     buf @ ''rel '' @ fmt_u (spcNode (node t)) @ ''/'' @ fmt_u (dbNode (node t)) @ ''/''
       @ fmt_u (relNode (node t))
       @ ''; tid '' @ fmt_u (ItemPointerGetBlockNumber (tid t)) @ ''/''
       @ fmt_u (promote16 (ItemPointerGetOffsetNumber (tid t)))"

definition btree_desc :: "rmgr_consts \<Rightarrow> struct_layout \<Rightarrow> StringInfo \<Rightarrow> XLogRecord \<Rightarrow> StringInfo" where
  "btree_desc h ly buf record =
    (let rec = XLogRecGetData record;
         info = xl_info record AND NOT (XLR_INFO_MASK h)
     in
     if info = XLOG_BTREE_INSERT_LEAF h \<or> info = XLOG_BTREE_INSERT_UPPER h
          \<or> info = XLOG_BTREE_INSERT_META h then
       (let xlrec = as_xl_btree_insert ly rec in out_target buf (target xlrec))
     else if info = XLOG_BTREE_SPLIT_L h \<or> info = XLOG_BTREE_SPLIT_R h
          \<or> info = XLOG_BTREE_SPLIT_L_ROOT h \<or> info = XLOG_BTREE_SPLIT_R_ROOT h then
       (let xlrec = as_xl_btree_split ly rec;
            buf1 = buf @ ''rel '' @ fmt_u (spcNode (split_node xlrec)) @ ''/''
                     @ fmt_u (dbNode (split_node xlrec)) @ ''/''
                     @ fmt_u (relNode (split_node xlrec)) @ '' ''
        in buf1 @ ''left '' @ fmt_u (split_leftsib xlrec)
             @ '', right '' @ fmt_u (split_rightsib xlrec)
             @ '', next '' @ fmt_u (split_rnext xlrec)
             @ '', level '' @ fmt_u (split_level xlrec)
             @ '', firstright '' @ fmt_d (promote16 (split_firstright xlrec)))
     else if info = XLOG_BTREE_VACUUM h then
       (let xlrec = as_xl_btree_vacuum ly rec
        in buf @ ''rel '' @ fmt_u (spcNode (vacuum_node xlrec)) @ ''/''
             @ fmt_u (dbNode (vacuum_node xlrec)) @ ''/''
             @ fmt_u (relNode (vacuum_node xlrec))
             @ ''; blk '' @ fmt_u (vacuum_block xlrec)
             @ '', lastBlockVacuumed '' @ fmt_u (vacuum_lastBlockVacuumed xlrec))
     else if info = XLOG_BTREE_DELETE h then
       (let xlrec = as_xl_btree_delete ly rec
        in buf @ ''index '' @ fmt_u (spcNode (delete_node xlrec)) @ ''/''
             @ fmt_u (dbNode (delete_node xlrec)) @ ''/''
             @ fmt_u (relNode (delete_node xlrec))
             @ ''; iblk '' @ fmt_u (delete_block xlrec)
             @ '', heap '' @ fmt_u (spcNode (delete_hnode xlrec)) @ ''/''
             @ fmt_u (dbNode (delete_hnode xlrec)) @ ''/''
             @ fmt_u (relNode (delete_hnode xlrec)) @ '';'')
     else if info = XLOG_BTREE_MARK_PAGE_HALFDEAD h then
       (let xlrec = as_xl_btree_mark_page_halfdead ly rec;
            buf1 = out_target buf (halfdead_target xlrec)
        in buf1 @ ''; topparent '' @ fmt_u (halfdead_topparent xlrec)
             @ ''; leaf '' @ fmt_u (halfdead_leafblk xlrec)
             @ ''; left '' @ fmt_u (halfdead_leftblk xlrec)
             @ ''; right '' @ fmt_u (halfdead_rightblk xlrec))
     else if info = XLOG_BTREE_UNLINK_PAGE_META h \<or> info = XLOG_BTREE_UNLINK_PAGE h then
       (let xlrec = as_xl_btree_unlink_page ly rec;
            buf1 = buf @ ''rel '' @ fmt_u (spcNode (unlink_node xlrec)) @ ''/''
                     @ fmt_u (dbNode (unlink_node xlrec)) @ ''/''
                     @ fmt_u (relNode (unlink_node xlrec)) @ ''; '';
            buf2 = buf1 @ ''dead '' @ fmt_u (unlink_deadblk xlrec)
                     @ ''; left '' @ fmt_u (unlink_leftsib xlrec)
                     @ ''; right '' @ fmt_u (unlink_rightsib xlrec)
                     @ ''; btpo_xact '' @ fmt_u (unlink_btpo_xact xlrec) @ ''; ''
        in buf2 @ ''leaf '' @ fmt_u (unlink_leafblk xlrec)
             @ ''; leafleft '' @ fmt_u (unlink_leafleftsib xlrec)
             @ ''; leafright '' @ fmt_u (unlink_leafrightsib xlrec)
             @ ''; topparent '' @ fmt_u (unlink_topparent xlrec))
     else if info = XLOG_BTREE_NEWROOT h then
       (let xlrec = as_xl_btree_newroot ly rec
        in buf @ ''rel '' @ fmt_u (spcNode (newroot_node xlrec)) @ ''/''
             @ fmt_u (dbNode (newroot_node xlrec)) @ ''/''
             @ fmt_u (relNode (newroot_node xlrec))
             @ ''; root '' @ fmt_u (newroot_rootblk xlrec)
             @ '' lev '' @ fmt_u (newroot_level xlrec))
     else if info = XLOG_BTREE_REUSE_PAGE h then
       (let xlrec = as_xl_btree_reuse_page ly rec
        in buf @ ''rel '' @ fmt_u (spcNode (reuse_node xlrec)) @ ''/''
             @ fmt_u (dbNode (reuse_node xlrec)) @ ''/''
             @ fmt_u (relNode (reuse_node xlrec))
             @ ''; latestRemovedXid '' @ fmt_u (reuse_latestRemovedXid xlrec))
     else buf)"

definition btree_identify :: "rmgr_consts \<Rightarrow> uint8 \<Rightarrow> string option" where
  "btree_identify h info =
    (if info = XLOG_BTREE_INSERT_LEAF h then Some ''INSERT_LEAF''
     else if info = XLOG_BTREE_INSERT_UPPER h then Some ''INSERT_UPPER''
     else if info = XLOG_BTREE_INSERT_META h then Some ''INSERT_META''
     else if info = XLOG_BTREE_SPLIT_L h then Some ''SPLIT_L''
     else if info = XLOG_BTREE_SPLIT_R h then Some ''SPLIT_R''
     else if info = XLOG_BTREE_SPLIT_L_ROOT h then Some ''SPLIT_L_ROOT''
     else if info = XLOG_BTREE_SPLIT_R_ROOT h then Some ''SPLIT_R_ROOT''
     else if info = XLOG_BTREE_VACUUM h then Some ''VACUUM''
     else if info = XLOG_BTREE_DELETE h then Some ''DELETE''
     else if info = XLOG_BTREE_MARK_PAGE_HALFDEAD h then Some ''MARK_PAGE_HALFDEAD''
     else if info = XLOG_BTREE_UNLINK_PAGE h then Some ''UNLINK_PAGE''
     else if info = XLOG_BTREE_UNLINK_PAGE_META h then Some ''UNLINK_PAGE_META''
     else if info = XLOG_BTREE_NEWROOT h then Some ''NEWROOT''
     else if info = XLOG_BTREE_REUSE_PAGE h then Some ''REUSE_PAGE''
     else None)"

section \<open>gistdesc.c\<close>

definition gist_out_target :: "StringInfo \<Rightarrow> RelFileNode \<Rightarrow> StringInfo" where
  "gist_out_target buf n =
     buf @ ''rel '' @ fmt_u (spcNode n) @ ''/'' @ fmt_u (dbNode n) @ ''/'' @ fmt_u (relNode n)"

definition out_gistxlogPageUpdate :: "StringInfo \<Rightarrow> gistxlogPageUpdate \<Rightarrow> StringInfo" where
  "out_gistxlogPageUpdate buf xlrec =
     (let buf1 = gist_out_target buf (update_node xlrec)
      in buf1 @ ''; block number '' @ fmt_u (update_blkno xlrec))"

definition out_gistxlogPageSplit :: "StringInfo \<Rightarrow> gistxlogPageSplit \<Rightarrow> StringInfo" where
  "out_gistxlogPageSplit buf xlrec =
     (let buf1 = appendStringInfoString buf ''page_split: '';
          buf2 = gist_out_target buf1 (gsplit_node xlrec)
      in buf2 @ ''; block number '' @ fmt_u (gsplit_origblkno xlrec)
           @ '' splits to '' @ fmt_d (promote16 (gsplit_npage xlrec)) @ '' pages'')"

definition gist_desc :: "rmgr_consts \<Rightarrow> struct_layout \<Rightarrow> StringInfo \<Rightarrow> XLogRecord \<Rightarrow> StringInfo" where
  "gist_desc h ly buf record =
    (let rec = XLogRecGetData record;
         info = xl_info record AND NOT (XLR_INFO_MASK h)
     in
     if info = XLOG_GIST_PAGE_UPDATE h then
       out_gistxlogPageUpdate buf (as_gistxlogPageUpdate ly rec)
     else if info = XLOG_GIST_PAGE_SPLIT h then
       out_gistxlogPageSplit buf (as_gistxlogPageSplit ly rec)
     else if info = XLOG_GIST_CREATE_INDEX h then
       buf @ ''rel '' @ fmt_u (spcNode (as_RelFileNode ly rec)) @ ''/''
         @ fmt_u (dbNode (as_RelFileNode ly rec)) @ ''/''
         @ fmt_u (relNode (as_RelFileNode ly rec))
     else buf)"

definition gist_identify :: "rmgr_consts \<Rightarrow> uint8 \<Rightarrow> string option" where
  "gist_identify h info =
    (if info = XLOG_GIST_PAGE_UPDATE h then Some ''PAGE_UPDATE''
     else if info = XLOG_GIST_PAGE_SPLIT h then Some ''PAGE_SPLIT''
     else if info = XLOG_GIST_CREATE_INDEX h then Some ''CREATE_INDEX''
     else None)"


section \<open>The call as a state transformer\<close>

text \<open>
  A call receives two pointers, to the buffer and to the record. Neither routine
  assigns through \<^verbatim>\<open>record\<close> or \<^verbatim>\<open>rec\<close>: every store goes through
  \<^verbatim>\<open>appendStringInfo\<close> on \<^verbatim>\<open>buf\<close>. The state after the call is the new buffer
  together with the record as it was passed.
\<close>

definition btree_desc_call ::
  "rmgr_consts \<Rightarrow> struct_layout \<Rightarrow> StringInfo \<times> XLogRecord \<Rightarrow> StringInfo \<times> XLogRecord" where
  "btree_desc_call h ly s = (btree_desc h ly (fst s) (snd s), snd s)"

definition gist_desc_call ::
  "rmgr_consts \<Rightarrow> struct_layout \<Rightarrow> StringInfo \<times> XLogRecord \<Rightarrow> StringInfo \<times> XLogRecord" where
  "gist_desc_call h ly s = (gist_desc h ly (fst s) (snd s), snd s)"

section \<open>The record catalogue as the specification words it\<close>

text \<open>
  The closed enumerations of kind tags, in the order of the case labels of the
  identify routines, and the names the routines return for them.
\<close>

definition btree_kinds :: "rmgr_consts \<Rightarrow> uint8 list" where
  "btree_kinds h =
     [XLOG_BTREE_INSERT_LEAF h, XLOG_BTREE_INSERT_UPPER h, XLOG_BTREE_INSERT_META h,
      XLOG_BTREE_SPLIT_L h, XLOG_BTREE_SPLIT_R h, XLOG_BTREE_SPLIT_L_ROOT h,
      XLOG_BTREE_SPLIT_R_ROOT h, XLOG_BTREE_VACUUM h, XLOG_BTREE_DELETE h,
      XLOG_BTREE_MARK_PAGE_HALFDEAD h, XLOG_BTREE_UNLINK_PAGE h,
      XLOG_BTREE_UNLINK_PAGE_META h, XLOG_BTREE_NEWROOT h, XLOG_BTREE_REUSE_PAGE h]"

definition btree_names :: "string list" where
  "btree_names =
     [''INSERT_LEAF'', ''INSERT_UPPER'', ''INSERT_META'', ''SPLIT_L'', ''SPLIT_R'',
      ''SPLIT_L_ROOT'', ''SPLIT_R_ROOT'', ''VACUUM'', ''DELETE'', ''MARK_PAGE_HALFDEAD'',
      ''UNLINK_PAGE'', ''UNLINK_PAGE_META'', ''NEWROOT'', ''REUSE_PAGE'']"

definition gist_kinds :: "rmgr_consts \<Rightarrow> uint8 list" where
  "gist_kinds h =
     [XLOG_GIST_PAGE_UPDATE h, XLOG_GIST_PAGE_SPLIT h, XLOG_GIST_CREATE_INDEX h]"

definition gist_names :: "string list" where
  "gist_names = [''PAGE_UPDATE'', ''PAGE_SPLIT'', ''CREATE_INDEX'']"

text \<open>
  The kind tag of a record, as both description routines compute it before the
  \<^verbatim>\<open>switch\<close>.
\<close>

definition kind_tag :: "rmgr_consts \<Rightarrow> XLogRecord \<Rightarrow> uint8" where
  "kind_tag h record = xl_info record AND NOT (XLR_INFO_MASK h)"

text \<open>
  The kinds that an access method can format and those it can identify, as sets of
  kind tags: a tag is formattable when the description routine writes something for a
  record of that kind.
\<close>

definition btree_formattable :: "rmgr_consts \<Rightarrow> struct_layout \<Rightarrow> uint8 set" where
  "btree_formattable h ly = {k. \<exists>r. kind_tag h r = k \<and> btree_desc h ly [] r \<noteq> []}"

definition gist_formattable :: "rmgr_consts \<Rightarrow> struct_layout \<Rightarrow> uint8 set" where
  "gist_formattable h ly = {k. \<exists>r. kind_tag h r = k \<and> gist_desc h ly [] r \<noteq> []}"

definition btree_identifiable :: "rmgr_consts \<Rightarrow> uint8 set" where
  "btree_identifiable h = {k. btree_identify h k \<noteq> None}"

definition gist_identifiable :: "rmgr_consts \<Rightarrow> uint8 set" where
  "gist_identifiable h = {k. gist_identify h k \<noteq> None}"

text \<open>
  The kind tags keep clear of the bits of \<open>xl_info\<close> that the mask reserves, so that
  every tag of an enumeration is the kind tag of some record.
\<close>

definition tags_clear_of_mask :: "rmgr_consts \<Rightarrow> bool" where
  "tags_clear_of_mask h =
     list_all (\<lambda>k. k AND XLR_INFO_MASK h = 0) (btree_kinds h @ gist_kinds h)"

text \<open>
  The decoded record as a tagged variant: the structure that the \<^verbatim>\<open>switch\<close> of the
  description routine reads the data through, chosen by the kind tag with the case
  labels in the order of the source. A tag that no label matches has no variant.
\<close>

datatype btree_header =
    Insert xl_btree_insert
  | Split xl_btree_split
  | Vacuum xl_btree_vacuum
  | Delete xl_btree_delete
  | MarkPageHalfdead xl_btree_mark_page_halfdead
  | UnlinkPage xl_btree_unlink_page
  | Newroot xl_btree_newroot
  | ReusePage xl_btree_reuse_page

datatype gist_header =
    PageUpdate gistxlogPageUpdate
  | PageSplit gistxlogPageSplit
  | CreateIndex RelFileNode

definition btree_decode :: "rmgr_consts \<Rightarrow> struct_layout \<Rightarrow> XLogRecord \<Rightarrow> btree_header option" where
  "btree_decode h ly record =
    (let rec = XLogRecGetData record; info = kind_tag h record
     in
     if info = XLOG_BTREE_INSERT_LEAF h \<or> info = XLOG_BTREE_INSERT_UPPER h
          \<or> info = XLOG_BTREE_INSERT_META h then
       Some (Insert (as_xl_btree_insert ly rec))
     else if info = XLOG_BTREE_SPLIT_L h \<or> info = XLOG_BTREE_SPLIT_R h
          \<or> info = XLOG_BTREE_SPLIT_L_ROOT h \<or> info = XLOG_BTREE_SPLIT_R_ROOT h then
       Some (Split (as_xl_btree_split ly rec))
     else if info = XLOG_BTREE_VACUUM h then Some (Vacuum (as_xl_btree_vacuum ly rec))
     else if info = XLOG_BTREE_DELETE h then Some (Delete (as_xl_btree_delete ly rec))
     else if info = XLOG_BTREE_MARK_PAGE_HALFDEAD h then
       Some (MarkPageHalfdead (as_xl_btree_mark_page_halfdead ly rec))
     else if info = XLOG_BTREE_UNLINK_PAGE_META h \<or> info = XLOG_BTREE_UNLINK_PAGE h then
       Some (UnlinkPage (as_xl_btree_unlink_page ly rec))
     else if info = XLOG_BTREE_NEWROOT h then Some (Newroot (as_xl_btree_newroot ly rec))
     else if info = XLOG_BTREE_REUSE_PAGE h then
       Some (ReusePage (as_xl_btree_reuse_page ly rec))
     else None)"

definition gist_decode :: "rmgr_consts \<Rightarrow> struct_layout \<Rightarrow> XLogRecord \<Rightarrow> gist_header option" where
  "gist_decode h ly record =
    (let rec = XLogRecGetData record; info = kind_tag h record
     in
     if info = XLOG_GIST_PAGE_UPDATE h then Some (PageUpdate (as_gistxlogPageUpdate ly rec))
     else if info = XLOG_GIST_PAGE_SPLIT h then Some (PageSplit (as_gistxlogPageSplit ly rec))
     else if info = XLOG_GIST_CREATE_INDEX h then Some (CreateIndex (as_RelFileNode ly rec))
     else None)"

text \<open>
  The renderings that the specification asks the output to contain: a relation
  locator as \<open>spc/db/rel\<close> and an item address as \<open>block/offset\<close>.
\<close>

definition fmt_locator :: "RelFileNode \<Rightarrow> string" where
  "fmt_locator n = fmt_u (spcNode n) @ ''/'' @ fmt_u (dbNode n) @ ''/'' @ fmt_u (relNode n)"

definition fmt_item :: "ItemPointerData \<Rightarrow> string" where
  "fmt_item t = fmt_u (ip_blkid t) @ ''/'' @ fmt_u (promote16 (ip_posid t))"





text \<open>
  The rendering of a decoded header: the text that the description routine appends
  for it, written with the two renderings above.
\<close>

fun btree_format :: "btree_header \<Rightarrow> string" where
  "btree_format (Insert x) =
     ''rel '' @ fmt_locator (node (target x)) @ ''; tid '' @ fmt_item (tid (target x))"
| "btree_format (Split x) =
     ''rel '' @ fmt_locator (split_node x) @ '' left '' @ fmt_u (split_leftsib x)
       @ '', right '' @ fmt_u (split_rightsib x) @ '', next '' @ fmt_u (split_rnext x)
       @ '', level '' @ fmt_u (split_level x)
       @ '', firstright '' @ fmt_d (promote16 (split_firstright x))"
| "btree_format (Vacuum x) =
     ''rel '' @ fmt_locator (vacuum_node x) @ ''; blk '' @ fmt_u (vacuum_block x)
       @ '', lastBlockVacuumed '' @ fmt_u (vacuum_lastBlockVacuumed x)"
| "btree_format (Delete x) =
     ''index '' @ fmt_locator (delete_node x) @ ''; iblk '' @ fmt_u (delete_block x)
       @ '', heap '' @ fmt_locator (delete_hnode x) @ '';''"
| "btree_format (MarkPageHalfdead x) =
     ''rel '' @ fmt_locator (node (halfdead_target x))
       @ ''; tid '' @ fmt_item (tid (halfdead_target x))
       @ ''; topparent '' @ fmt_u (halfdead_topparent x)
       @ ''; leaf '' @ fmt_u (halfdead_leafblk x)
       @ ''; left '' @ fmt_u (halfdead_leftblk x)
       @ ''; right '' @ fmt_u (halfdead_rightblk x)"
| "btree_format (UnlinkPage x) =
     ''rel '' @ fmt_locator (unlink_node x) @ ''; dead '' @ fmt_u (unlink_deadblk x)
       @ ''; left '' @ fmt_u (unlink_leftsib x) @ ''; right '' @ fmt_u (unlink_rightsib x)
       @ ''; btpo_xact '' @ fmt_u (unlink_btpo_xact x)
       @ ''; leaf '' @ fmt_u (unlink_leafblk x)
       @ ''; leafleft '' @ fmt_u (unlink_leafleftsib x)
       @ ''; leafright '' @ fmt_u (unlink_leafrightsib x)
       @ ''; topparent '' @ fmt_u (unlink_topparent x)"
| "btree_format (Newroot x) =
     ''rel '' @ fmt_locator (newroot_node x) @ ''; root '' @ fmt_u (newroot_rootblk x)
       @ '' lev '' @ fmt_u (newroot_level x)"
| "btree_format (ReusePage x) =
     ''rel '' @ fmt_locator (reuse_node x)
       @ ''; latestRemovedXid '' @ fmt_u (reuse_latestRemovedXid x)"

fun gist_format :: "gist_header \<Rightarrow> string" where
  "gist_format (PageUpdate x) =
     ''rel '' @ fmt_locator (update_node x) @ ''; block number '' @ fmt_u (update_blkno x)"
| "gist_format (PageSplit x) =
     ''page_split: rel '' @ fmt_locator (gsplit_node x)
       @ ''; block number '' @ fmt_u (gsplit_origblkno x)
       @ '' splits to '' @ fmt_d (promote16 (gsplit_npage x)) @ '' pages''"
| "gist_format (CreateIndex n) = ''rel '' @ fmt_locator n"

text \<open>One text starts another; one text occurs inside another.\<close>

fun starts_with :: "string \<Rightarrow> string \<Rightarrow> bool" where
  "starts_with [] t = True"
| "starts_with (c # s) [] = False"
| "starts_with (c # s) (d # t) = (c = d \<and> starts_with s t)"

fun occurs_in :: "string \<Rightarrow> string \<Rightarrow> bool" where
  "occurs_in s [] = starts_with s []"
| "occurs_in s (d # t) = (starts_with s (d # t) \<or> occurs_in s t)"

declare starts_with.simps [simp del] occurs_in.simps [simp del]






section \<open>Replay engine\<close>

text \<open>
  Modelled from the spec: the replay engine and the dispatcher (section 4.3 and 4.4)
  are missing from the sources, which hold the description routines only. The
  definitions below follow the words of the specification; what it leaves open is a
  parameter.
\<close>

text \<open>
  Modelled from the spec: the error taxonomy of section 7; every fatal condition stops
  replay.
\<close>

datatype ReplayError =
    UnknownAccessMethod
  | UnknownKind
  | Truncated
  | Malformed
  | InvariantViolation

text \<open>
  Modelled from the spec: the access-method identifier of a log entry denotes the
  ordered tree, the hierarchical tree, or neither.
\<close>

datatype AccessMethodId = OrderedTree | HierarchicalTree | OtherAccessMethod nat

text \<open>
  Modelled from the spec: the page states of section 4.4, and what the page header
  carries: the log position of the last record applied (section 3, invariant 5), the
  pending top-parent downlink of a half-dead page, the removal horizon carried by the
  unlink, and the page image.
\<close>

datatype PageStatus = Normal | HalfDead | Unlinked | Reusable

type_synonym page_image = "uint8 list"

record PageState =
  page_lsn :: nat
  page_status :: PageStatus
  page_topparent :: "uint32 option"
  page_horizon :: "uint32 option"
  page_image :: page_image

text \<open>
  Modelled from the spec: a log entry is a record with the access-method identifier
  and the log position at which it was produced.
\<close>

record LogEntry =
  entry_am :: AccessMethodId
  entry_pos :: nat
  entry_rec :: XLogRecord

text \<open>
  Modelled from the spec: the dispatcher \<^verbatim>\<open>handlerFor(accessMethod, kind)\<close> of
  section 4.3. An access method that is not recognized is fatal; so is a kind outside
  the closed enumeration of a recognized access method. The enumerations are those of
  the identify routines.
\<close>

definition handlerFor :: "rmgr_consts \<Rightarrow> AccessMethodId \<Rightarrow> uint8 \<Rightarrow> ReplayError + AccessMethodId" where
  "handlerFor h am kind =
    (case am of
       OrderedTree \<Rightarrow> (if btree_identify h kind = None then Inl UnknownKind else Inr OrderedTree)
     | HierarchicalTree \<Rightarrow> (if gist_identify h kind = None then Inl UnknownKind else Inr HierarchicalTree)
     | OtherAccessMethod n \<Rightarrow> Inl UnknownAccessMethod)"

text \<open>
  Modelled from the spec: the glossary makes the removal horizon the boundary below
  which an active transaction can still observe the data being removed, and Scenario C
  rejects a reuse when an active transaction older than the horizon exists. So the
  transactions that could still observe the old contents are the active ones whose
  identifier is smaller than the horizon; one whose identifier is the horizon itself
  is not below it.
\<close>

definition could_observe :: "uint32 list \<Rightarrow> uint32 \<Rightarrow> uint32 list" where
  "could_observe active x = filter (\<lambda>t. t < x) active"

text \<open>
  Modelled from the spec: invariant 4 of section 3: a reuse is only valid if the
  removal horizon is older than every transaction that could still observe the old
  contents.
\<close>

definition reuse_valid :: "uint32 list \<Rightarrow> uint32 \<Rightarrow> bool" where
  "reuse_valid active x = list_all (\<lambda>t. x < t) (could_observe active x)"

text \<open>
  Modelled from the spec: the effect of one ordered-tree record on its target page
  (section 4.4). The state machine has the transitions
  \<open>Normal --mark-page-half-dead--> HalfDead\<close>, which records the pending top parent,
  \<open>HalfDead --unlink-page--> Unlinked\<close>, which records the removal horizon that the
  record carries, and \<open>Unlinked --reuse-page--> Reusable\<close>. The reuse is guarded: the
  record is rejected when its removal horizon is not valid against the active
  transactions, and it must be the horizon recorded with the deletion of the page
  (invariant 4). A record that finds the page in the very state that it produces
  leaves the page as it is, since applying a record twice without advancing the
  position must give the state of applying it once (section 8); a transition from any
  other state violates an invariant, and so does a split of a half-dead page
  (invariant 2). How a record changes the page image is not said: it is the parameter
  \<open>redo\<close>. The page is the target page of the record, which exists; looking it up by
  block number, and the check of an install-new-root record against its children,
  which the header does not carry, are not part of the model.
\<close>

definition btree_apply ::
  "rmgr_consts \<Rightarrow> struct_layout \<Rightarrow> (XLogRecord \<Rightarrow> page_image \<Rightarrow> page_image) \<Rightarrow> uint32 list
     \<Rightarrow> XLogRecord \<Rightarrow> PageState \<Rightarrow> ReplayError + PageState" where
  "btree_apply h ly redo active record pg =
    (case btree_decode h ly record of
       None \<Rightarrow> Inl UnknownKind
     | Some (MarkPageHalfdead x) \<Rightarrow>
         (if page_status pg = Normal
          then Inr (pg\<lparr>page_status := HalfDead, page_topparent := Some (halfdead_topparent x)\<rparr>)
          else if page_status pg = HalfDead
                  \<and> page_topparent pg = Some (halfdead_topparent x) then Inr pg
          else Inl InvariantViolation)
     | Some (UnlinkPage x) \<Rightarrow>
         (if page_status pg = HalfDead
          then Inr (pg\<lparr>page_status := Unlinked, page_horizon := Some (unlink_btpo_xact x)\<rparr>)
          else if page_status pg = Unlinked
                  \<and> page_horizon pg = Some (unlink_btpo_xact x) then Inr pg
          else Inl InvariantViolation)
     | Some (ReusePage x) \<Rightarrow>
         (if \<not> reuse_valid active (reuse_latestRemovedXid x) then Inl InvariantViolation
          else if page_status pg = Unlinked
                  \<and> page_horizon pg = Some (reuse_latestRemovedXid x)
            then Inr (pg\<lparr>page_status := Reusable\<rparr>)
          else if page_status pg = Reusable
                  \<and> page_horizon pg = Some (reuse_latestRemovedXid x) then Inr pg
          else Inl InvariantViolation)
     | Some (Split x) \<Rightarrow>
         (if page_status pg = HalfDead then Inl InvariantViolation
          else Inr (pg\<lparr>page_image := redo record (page_image pg)\<rparr>))
     | Some other \<Rightarrow> Inr (pg\<lparr>page_image := redo record (page_image pg)\<rparr>))"

text \<open>
  Modelled from the spec: the hierarchical-tree records take no part in the state
  machine; they change the page image.
\<close>

definition gist_apply ::
  "rmgr_consts \<Rightarrow> struct_layout \<Rightarrow> (XLogRecord \<Rightarrow> page_image \<Rightarrow> page_image)
     \<Rightarrow> XLogRecord \<Rightarrow> PageState \<Rightarrow> ReplayError + PageState" where
  "gist_apply h ly redo record pg =
    (case gist_decode h ly record of
       None \<Rightarrow> Inl UnknownKind
     | Some other \<Rightarrow> Inr (pg\<lparr>page_image := redo record (page_image pg)\<rparr>))"

text \<open>
  Modelled from the spec: replay of one log entry on its target page. The dispatcher
  comes first; then the idempotency rule, for every kind: a page whose recorded
  position is not older than the entry's is left as it is, with no error; otherwise
  the record is applied and the page records the entry's position.
\<close>

definition replay ::
  "rmgr_consts \<Rightarrow> struct_layout \<Rightarrow> (XLogRecord \<Rightarrow> page_image \<Rightarrow> page_image) \<Rightarrow> uint32 list
     \<Rightarrow> LogEntry \<Rightarrow> PageState \<Rightarrow> ReplayError + PageState" where
  "replay h ly redo active e pg =
    (case handlerFor h (entry_am e) (kind_tag h (entry_rec e)) of
       Inl err \<Rightarrow> Inl err
     | Inr am \<Rightarrow>
         if entry_pos e \<le> page_lsn pg then Inr pg
         else
           (case (case am of
                    OrderedTree \<Rightarrow> btree_apply h ly redo active (entry_rec e) pg
                  | HierarchicalTree \<Rightarrow> gist_apply h ly redo (entry_rec e) pg
                  | OtherAccessMethod n \<Rightarrow> Inl UnknownAccessMethod) of
              Inl err \<Rightarrow> Inl err
            | Inr pg' \<Rightarrow> Inr (pg'\<lparr>page_lsn := entry_pos e\<rparr>)))"

text \<open>
  Modelled from the spec: an entry is recognized when its access method is one of the
  two and its kind tag is in the closed enumeration of that access method.
\<close>

definition recognized :: "rmgr_consts \<Rightarrow> LogEntry \<Rightarrow> bool" where
  "recognized h e =
    (case entry_am e of
       OrderedTree \<Rightarrow> btree_identify h (kind_tag h (entry_rec e)) \<noteq> None
     | HierarchicalTree \<Rightarrow> gist_identify h (kind_tag h (entry_rec e)) \<noteq> None
     | OtherAccessMethod n \<Rightarrow> False)"






section \<open>Concrete tags, layout and records\<close>

text \<open>
  One assignment of the kind tags: one tag per kind in the high four bits of
  \<open>xl_info\<close>, with the mask on the low four bits.
\<close>

definition sample_consts :: rmgr_consts where
  "sample_consts =
     \<lparr>XLR_INFO_MASK = 0x0F,
      XLOG_BTREE_INSERT_LEAF = 0x00, XLOG_BTREE_INSERT_UPPER = 0x10,
      XLOG_BTREE_INSERT_META = 0x20, XLOG_BTREE_SPLIT_L = 0x30, XLOG_BTREE_SPLIT_R = 0x40,
      XLOG_BTREE_SPLIT_L_ROOT = 0x50, XLOG_BTREE_SPLIT_R_ROOT = 0x60,
      XLOG_BTREE_VACUUM = 0xC0, XLOG_BTREE_DELETE = 0x70,
      XLOG_BTREE_MARK_PAGE_HALFDEAD = 0xB0, XLOG_BTREE_UNLINK_PAGE = 0x80,
      XLOG_BTREE_UNLINK_PAGE_META = 0x90, XLOG_BTREE_NEWROOT = 0xA0,
      XLOG_BTREE_REUSE_PAGE = 0xD0,
      XLOG_GIST_PAGE_UPDATE = 0x00, XLOG_GIST_PAGE_SPLIT = 0x30,
      XLOG_GIST_CREATE_INDEX = 0x50\<rparr>"

text \<open>A memory that holds the given bytes from offset 0 on, and zero after them.\<close>

definition mem_of :: "uint8 list \<Rightarrow> memory" where
  "mem_of bs = (\<lambda>i. if i < length bs then bs ! i else 0)"

definition le16 :: "memory \<Rightarrow> nat \<Rightarrow> uint16" where
  "le16 m off = word_of_nat (unat (m off) + 256 * unat (m (off + 1)))"

definition le32 :: "memory \<Rightarrow> nat \<Rightarrow> uint32" where
  "le32 m off =
     word_of_nat (unat (m off) + 256 * unat (m (off + 1)) + 65536 * unat (m (off + 2))
       + 16777216 * unat (m (off + 3)))"

definition rd_RelFileNode :: "memory \<Rightarrow> nat \<Rightarrow> RelFileNode" where
  "rd_RelFileNode m off =
     \<lparr>spcNode = le32 m off, dbNode = le32 m (off + 4), relNode = le32 m (off + 8)\<rparr>"

definition rd_btreetid :: "memory \<Rightarrow> nat \<Rightarrow> xl_btreetid" where
  "rd_btreetid m off =
     \<lparr>node = rd_RelFileNode m off,
      tid = \<lparr>ip_blkid = le32 m (off + 12), ip_posid = le16 m (off + 16)\<rparr>\<rparr>"

text \<open>
  Modelled from the spec: a layout of the headers as section 6 describes the binary
  format: the fields in the declared order, fixed widths, no padding, here in
  little-endian byte order.
\<close>

definition packed_layout :: struct_layout where
  "packed_layout =
     \<lparr>as_xl_btree_insert = (\<lambda>m. \<lparr>target = rd_btreetid m 0\<rparr>),
      as_xl_btree_split = (\<lambda>m.
        \<lparr>split_node = rd_RelFileNode m 0, split_leftsib = le32 m 12,
         split_rightsib = le32 m 16, split_rnext = le32 m 20, split_level = le32 m 24,
         split_firstright = le16 m 28\<rparr>),
      as_xl_btree_vacuum = (\<lambda>m.
        \<lparr>vacuum_node = rd_RelFileNode m 0, vacuum_block = le32 m 12,
         vacuum_lastBlockVacuumed = le32 m 16\<rparr>),
      as_xl_btree_delete = (\<lambda>m.
        \<lparr>delete_node = rd_RelFileNode m 0, delete_block = le32 m 12,
         delete_hnode = rd_RelFileNode m 16\<rparr>),
      as_xl_btree_mark_page_halfdead = (\<lambda>m.
        \<lparr>halfdead_target = rd_btreetid m 0, halfdead_topparent = le32 m 18,
         halfdead_leafblk = le32 m 22, halfdead_leftblk = le32 m 26,
         halfdead_rightblk = le32 m 30\<rparr>),
      as_xl_btree_unlink_page = (\<lambda>m.
        \<lparr>unlink_node = rd_RelFileNode m 0, unlink_deadblk = le32 m 12,
         unlink_leftsib = le32 m 16, unlink_rightsib = le32 m 20,
         unlink_btpo_xact = le32 m 24, unlink_leafblk = le32 m 28,
         unlink_leafleftsib = le32 m 32, unlink_leafrightsib = le32 m 36,
         unlink_topparent = le32 m 40\<rparr>),
      as_xl_btree_newroot = (\<lambda>m.
        \<lparr>newroot_node = rd_RelFileNode m 0, newroot_rootblk = le32 m 12,
         newroot_level = le32 m 16\<rparr>),
      as_xl_btree_reuse_page = (\<lambda>m.
        \<lparr>reuse_node = rd_RelFileNode m 0, reuse_latestRemovedXid = le32 m 12\<rparr>),
      as_gistxlogPageUpdate = (\<lambda>m.
        \<lparr>update_node = rd_RelFileNode m 0, update_blkno = le32 m 12\<rparr>),
      as_gistxlogPageSplit = (\<lambda>m.
        \<lparr>gsplit_node = rd_RelFileNode m 0, gsplit_origblkno = le32 m 12,
         gsplit_npage = le16 m 16\<rparr>),
      as_RelFileNode = (\<lambda>m. rd_RelFileNode m 0)\<rparr>"

text \<open>The bytes of the relation locator (1663, 12345, 67890).\<close>

definition locator_bytes :: "uint8 list" where
  "locator_bytes = [0x7F, 0x06, 0, 0, 0x39, 0x30, 0, 0, 0x32, 0x09, 0x01, 0]"

text \<open>Scenario A: an insert-into-leaf record for item (42, 3).\<close>

definition insert_leaf_record :: XLogRecord where
  "insert_leaf_record =
     \<lparr>xl_info = 0x00, xl_len = 18,
      xl_data = mem_of (locator_bytes @ [42, 0, 0, 0, 3, 0])\<rparr>"

text \<open>Scenario B: a split record (left 10, right 11, next 12, level 0, first right 4).\<close>

definition split_record :: XLogRecord where
  "split_record =
     \<lparr>xl_info = 0x30, xl_len = 30,
      xl_data = mem_of (locator_bytes
        @ [10, 0, 0, 0, 11, 0, 0, 0, 12, 0, 0, 0, 0, 0, 0, 0, 4, 0])\<rparr>"


text \<open>
  A record that states a data length of zero: the bytes at its data address lie
  behind its end.
\<close>

definition empty_record :: XLogRecord where
  "empty_record =
     \<lparr>xl_info = 0x00, xl_len = 0,
      xl_data = mem_of (locator_bytes @ [42, 0, 0, 0, 3, 0])\<rparr>"

text \<open>
  The insert-into-leaf record of Scenario A with one of the masked bits of \<open>xl_info\<close>
  set.
\<close>

definition flagged_record :: XLogRecord where
  "flagged_record =
     \<lparr>xl_info = 0x01, xl_len = 18,
      xl_data = mem_of (locator_bytes @ [42, 0, 0, 0, 3, 0])\<rparr>"

text \<open>A record whose kind tag is in neither enumeration.\<close>

definition unknown_record :: XLogRecord where
  "unknown_record =
     \<lparr>xl_info = 0xE0, xl_len = 16, xl_data = mem_of (locator_bytes @ [100, 0, 0, 0])\<rparr>"




text \<open>A change of the page image that repeats without effect: the tag is noted once.\<close>

definition sample_redo :: "XLogRecord \<Rightarrow> page_image \<Rightarrow> page_image" where
  "sample_redo record img = (if xl_info record \<in> set img then img else xl_info record # img)"


definition sample_page :: "nat \<Rightarrow> PageStatus \<Rightarrow> PageState" where
  "sample_page lsn st =
     \<lparr>page_lsn = lsn, page_status = st, page_topparent = None, page_horizon = None,
      page_image = []\<rparr>"

section \<open>Numbers in the rendered text\<close>












lemma sint_promote16: "sint (promote16 x) = uint x"
proof -
  have "uint x < 2 ^ 16" using uint_bounded [of x] by simp
  then have b: "uint x < 2 ^ 31" by simp
  have "- (2 ^ 31) \<le> (0::int)" by simp
  also have "0 \<le> uint x" by simp
  finally have a: "- (2 ^ 31) \<le> uint x" .
  have "sint (ucast x :: 32 word) = signed_take_bit 31 (uint x)"
    by (simp add: signed_ucast_eq)
  also have "\<dots> = uint x" using a b by (rule signed_take_bit_int_eq_self)
  finally show ?thesis by (simp add: promote16_def)
qed

lemma fmt_d_promote16: "fmt_d (promote16 x) = dec_digits (unat x)"
  by (simp add: fmt_d_def sint_promote16)




lemma unat_promote16: "unat (promote16 x) = unat x"
proof -
  have "unat x < 2 ^ 16" using unsigned_less [of x, where ?'a = nat] by simp
  then have "unat x < 2 ^ 32" by simp
  then have "take_bit 32 (unat x) = unat x" by (rule take_bit_nat_eq_self)
  then show ?thesis by (simp add: promote16_def unsigned_ucast_eq)
qed









section \<open>Decoding and rendering, separated\<close>

lemma btree_desc_decode:
  "btree_desc h ly buf record =
     buf @ (case btree_decode h ly record of None \<Rightarrow> [] | Some x \<Rightarrow> btree_format x)"
  by (simp add: btree_desc_def btree_decode_def kind_tag_def Let_def out_target_def
      fmt_locator_def fmt_item_def ItemPointerGetBlockNumber_def ItemPointerGetOffsetNumber_def)

lemma gist_desc_decode:
  "gist_desc h ly buf record =
     buf @ (case gist_decode h ly record of None \<Rightarrow> [] | Some x \<Rightarrow> gist_format x)"
  by (simp add: gist_desc_def gist_decode_def kind_tag_def Let_def gist_out_target_def
      out_gistxlogPageUpdate_def out_gistxlogPageSplit_def appendStringInfoString_def
      fmt_locator_def)

section \<open>The rendering determines the header\<close>























section \<open>The closed enumerations of the identify routines\<close>

lemma btree_identify_lookup:
  "btree_identify h info = map_of (zip (btree_kinds h) btree_names) info"
  by (simp add: btree_identify_def btree_kinds_def btree_names_def)

lemma gist_identify_lookup:
  "gist_identify h info = map_of (zip (gist_kinds h) gist_names) info"
  by (simp add: gist_identify_def gist_kinds_def gist_names_def)

lemma length_btree_kinds: "length (btree_kinds h) = 14"
  by (simp add: btree_kinds_def)

lemma length_btree_names: "length btree_names = 14"
  by (simp add: btree_names_def)

lemma length_gist_kinds: "length (gist_kinds h) = 3"
  by (simp add: gist_kinds_def)

lemma length_gist_names: "length gist_names = 3"
  by (simp add: gist_names_def)

lemma btree_identify_iff: "btree_identify h info \<noteq> None \<longleftrightarrow> info \<in> set (btree_kinds h)"
  by (simp add: btree_identify_def btree_kinds_def)

lemma gist_identify_iff: "gist_identify h info \<noteq> None \<longleftrightarrow> info \<in> set (gist_kinds h)"
  by (simp add: gist_identify_def gist_kinds_def)

lemma lookup_names:
  assumes "distinct ks" "length ks = length ns"
  shows "map (map_of (zip ks ns)) ks = map Some ns"
proof (rule nth_equalityI)
  show "length (map (map_of (zip ks ns)) ks) = length (map Some ns)"
    using assms by simp
next
  fix i assume "i < length (map (map_of (zip ks ns)) ks)"
  then have i: "i < length ns" using assms by simp
  have "map_of (zip ks ns) (ks ! i) = Some (ns ! i)"
    using assms i by (intro map_of_zip_nth) simp_all
  then show "map (map_of (zip ks ns)) ks ! i = map Some ns ! i"
    using i assms by simp
qed

lemma btree_identify_names:
  assumes "distinct (btree_kinds h)"
  shows "map (btree_identify h) (btree_kinds h) = map Some btree_names"
proof -
  have "btree_identify h = map_of (zip (btree_kinds h) btree_names)"
    by (rule ext) (rule btree_identify_lookup)
  then show ?thesis
    using lookup_names [OF assms, of btree_names]
    by (simp add: length_btree_kinds length_btree_names)
qed

lemma gist_identify_names:
  assumes "distinct (gist_kinds h)"
  shows "map (gist_identify h) (gist_kinds h) = map Some gist_names"
proof -
  have "gist_identify h = map_of (zip (gist_kinds h) gist_names)"
    by (rule ext) (rule gist_identify_lookup)
  then show ?thesis
    using lookup_names [OF assms, of gist_names]
    by (simp add: length_gist_kinds length_gist_names)
qed

lemma card_btree_identify:
  assumes "distinct (btree_kinds h)"
  shows "card {info. btree_identify h info \<noteq> None} = 14"
proof -
  have "{info. btree_identify h info \<noteq> None} = set (btree_kinds h)"
    using btree_identify_iff by blast
  moreover have "card (set (btree_kinds h)) = length (btree_kinds h)"
    using assms by (rule distinct_card)
  ultimately show ?thesis by (simp add: length_btree_kinds)
qed

lemma card_gist_identify:
  assumes "distinct (gist_kinds h)"
  shows "card {info. gist_identify h info \<noteq> None} = 3"
proof -
  have "{info. gist_identify h info \<noteq> None} = set (gist_kinds h)"
    using gist_identify_iff by blast
  moreover have "card (set (gist_kinds h)) = length (gist_kinds h)"
    using assms by (rule distinct_card)
  ultimately show ?thesis by (simp add: length_gist_kinds)
qed

lemma distinct_sample_btree: "distinct (btree_kinds sample_consts)"
  by (simp add: btree_kinds_def sample_consts_def)

lemma distinct_sample_gist: "distinct (gist_kinds sample_consts)"
  by (simp add: gist_kinds_def sample_consts_def)

text \<open>
  C5. Each identify routine returns a name exactly for the tags of the closed
  enumeration of its access method, and \<open>None\<close> (the null pointer) for every other
  tag. With the case labels distinct, as C requires of one \<^verbatim>\<open>switch\<close>, the tags of
  the enumeration get the names of the source in its order, and there are 14
  ordered-tree kinds and 3 hierarchical-tree kinds.
\<close>

theorem identify_closed_enumeration:
  assumes "distinct (btree_kinds h)" and "distinct (gist_kinds h)"
  shows "(btree_identify h info \<noteq> None \<longleftrightarrow> info \<in> set (btree_kinds h))
    \<and> (gist_identify h info \<noteq> None \<longleftrightarrow> info \<in> set (gist_kinds h))
    \<and> map (btree_identify h) (btree_kinds h) = map Some btree_names
    \<and> map (gist_identify h) (gist_kinds h) = map Some gist_names
    \<and> card {k. btree_identify h k \<noteq> None} = 14
    \<and> card {k. gist_identify h k \<noteq> None} = 3"
proof (intro conjI)
  show "btree_identify h info \<noteq> None \<longleftrightarrow> info \<in> set (btree_kinds h)"
    by (rule btree_identify_iff)
  show "gist_identify h info \<noteq> None \<longleftrightarrow> info \<in> set (gist_kinds h)"
    by (rule gist_identify_iff)
  show "map (btree_identify h) (btree_kinds h) = map Some btree_names"
    using assms(1) by (rule btree_identify_names)
  show "map (gist_identify h) (gist_kinds h) = map Some gist_names"
    using assms(2) by (rule gist_identify_names)
  show "card {k. btree_identify h k \<noteq> None} = 14"
    using assms(1) by (rule card_btree_identify)
  show "card {k. gist_identify h k \<noteq> None} = 3"
    using assms(2) by (rule card_gist_identify)
qed

theorem identify_closed_enumeration_witness:
  "distinct (btree_kinds sample_consts) \<and> distinct (gist_kinds sample_consts)
    \<and> btree_identify sample_consts 0xE0 = None
    \<and> gist_identify sample_consts 0xE0 = None
    \<and> map (btree_identify sample_consts) (btree_kinds sample_consts) = map Some btree_names
    \<and> map (gist_identify sample_consts) (gist_kinds sample_consts) = map Some gist_names
    \<and> card {k. btree_identify sample_consts k \<noteq> None} = 14
    \<and> card {k. gist_identify sample_consts k \<noteq> None} = 3"
proof -
  have a: "(0xE0 :: uint8) \<notin> set (btree_kinds sample_consts)"
    by (simp add: btree_kinds_def sample_consts_def)
  have b: "(0xE0 :: uint8) \<notin> set (gist_kinds sample_consts)"
    by (simp add: gist_kinds_def sample_consts_def)
  show ?thesis
    using identify_closed_enumeration [OF distinct_sample_btree distinct_sample_gist, of "0xE0"]
      a b distinct_sample_btree distinct_sample_gist
    by simp
qed

section \<open>Which structure a kind is read through\<close>

lemma btree_kinds_nth:
  "XLOG_BTREE_INSERT_LEAF h = btree_kinds h ! 0"
  "XLOG_BTREE_INSERT_UPPER h = btree_kinds h ! 1"
  "XLOG_BTREE_INSERT_META h = btree_kinds h ! 2"
  "XLOG_BTREE_SPLIT_L h = btree_kinds h ! 3"
  "XLOG_BTREE_SPLIT_R h = btree_kinds h ! 4"
  "XLOG_BTREE_SPLIT_L_ROOT h = btree_kinds h ! 5"
  "XLOG_BTREE_SPLIT_R_ROOT h = btree_kinds h ! 6"
  "XLOG_BTREE_VACUUM h = btree_kinds h ! 7"
  "XLOG_BTREE_DELETE h = btree_kinds h ! 8"
  "XLOG_BTREE_MARK_PAGE_HALFDEAD h = btree_kinds h ! 9"
  "XLOG_BTREE_UNLINK_PAGE h = btree_kinds h ! 10"
  "XLOG_BTREE_UNLINK_PAGE_META h = btree_kinds h ! 11"
  "XLOG_BTREE_NEWROOT h = btree_kinds h ! 12"
  "XLOG_BTREE_REUSE_PAGE h = btree_kinds h ! 13"
  by (simp_all add: btree_kinds_def)

lemma btree_kinds_nth_eq:
  "distinct (btree_kinds h) \<Longrightarrow> i < 14 \<Longrightarrow> j < 14 \<Longrightarrow>
     (btree_kinds h ! i = btree_kinds h ! j) = (i = j)"
  by (simp add: nth_eq_iff_index_eq length_btree_kinds)

lemma btree_decode_insert_leaf:
  "kind_tag h record = XLOG_BTREE_INSERT_LEAF h \<Longrightarrow>
     btree_decode h ly record = Some (Insert (as_xl_btree_insert ly (XLogRecGetData record)))"
  by (simp add: btree_decode_def)

lemma btree_decode_split:
  assumes "distinct (btree_kinds h)"
    and "kind_tag h record \<in> {XLOG_BTREE_SPLIT_L h, XLOG_BTREE_SPLIT_R h,
           XLOG_BTREE_SPLIT_L_ROOT h, XLOG_BTREE_SPLIT_R_ROOT h}"
  shows "btree_decode h ly record = Some (Split (as_xl_btree_split ly (XLogRecGetData record)))"
proof -
  from assms(2) obtain i where i: "kind_tag h record = btree_kinds h ! i" "3 \<le> i" "i < 7"
    unfolding btree_kinds_nth by auto
  then have "i < 14" by simp
  with assms(1) i show ?thesis
    unfolding btree_decode_def Let_def btree_kinds_nth
    by (auto simp add: btree_kinds_nth_eq)
qed

lemma fmt_numerals:
  "fmt_u 0 = ''0''" "fmt_u 10 = ''10''" "fmt_u 11 = ''11''" "fmt_u 12 = ''12''"
  "fmt_u 42 = ''42''" "fmt_u 1663 = ''1663''" "fmt_u 12345 = ''12345''"
  "fmt_u 67890 = ''67890''" "fmt_u (promote16 3) = ''3''" "fmt_d (promote16 4) = ''4''"
  by (simp_all add: fmt_u_def fmt_d_promote16 unat_promote16 dec_digits.simps digit_char_def)

section \<open>The scenarios of the specification\<close>

text \<open>
  C3 (Scenario A). For an insert-into-leaf record whose header carries the relation
  locator (1663, 12345, 67890) and the target item address (block 42, offset 3), the
  description routine appends exactly \<open>rel 1663/12345/67890; tid 42/3\<close>; on an empty
  buffer that is the whole output.
\<close>

theorem insert_leaf_scenario:
  assumes "kind_tag h record = XLOG_BTREE_INSERT_LEAF h"
    and "target (as_xl_btree_insert ly (XLogRecGetData record)) =
          \<lparr>node = \<lparr>spcNode = 1663, dbNode = 12345, relNode = 67890\<rparr>,
           tid = \<lparr>ip_blkid = 42, ip_posid = 3\<rparr>\<rparr>"
  shows "btree_desc h ly buf record = buf @ ''rel 1663/12345/67890; tid 42/3''"
  using assms
  by (simp add: btree_desc_decode btree_decode_insert_leaf fmt_locator_def fmt_item_def
      fmt_numerals)

lemma sample_insert_leaf_kind:
  "kind_tag sample_consts insert_leaf_record = XLOG_BTREE_INSERT_LEAF sample_consts"
  by (simp add: kind_tag_def sample_consts_def insert_leaf_record_def)

lemma sample_insert_leaf_target:
  "target (as_xl_btree_insert packed_layout (XLogRecGetData insert_leaf_record)) =
     \<lparr>node = \<lparr>spcNode = 1663, dbNode = 12345, relNode = 67890\<rparr>,
      tid = \<lparr>ip_blkid = 42, ip_posid = 3\<rparr>\<rparr>"
  by (simp add: packed_layout_def XLogRecGetData_def insert_leaf_record_def rd_btreetid_def
      rd_RelFileNode_def le32_def le16_def mem_of_def locator_bytes_def)

theorem insert_leaf_scenario_witness:
  "kind_tag sample_consts insert_leaf_record = XLOG_BTREE_INSERT_LEAF sample_consts
    \<and> target (as_xl_btree_insert packed_layout (XLogRecGetData insert_leaf_record)) =
          \<lparr>node = \<lparr>spcNode = 1663, dbNode = 12345, relNode = 67890\<rparr>,
           tid = \<lparr>ip_blkid = 42, ip_posid = 3\<rparr>\<rparr>
    \<and> btree_desc sample_consts packed_layout [] insert_leaf_record
         = ''rel 1663/12345/67890; tid 42/3''"
  using insert_leaf_scenario [OF sample_insert_leaf_kind sample_insert_leaf_target, of "[]"]
    sample_insert_leaf_kind sample_insert_leaf_target
  by simp

text \<open>
  C4 (Scenario B). For a split record of the ordered tree, of any of the four
  orientations, with left sibling 10, right sibling 11, next-right 12, level 0 and
  first moved offset 4, the output is the relation locator followed by
  \<open>left 10, right 11, next 12, level 0, firstright 4\<close>.
\<close>

theorem split_scenario:
  assumes "distinct (btree_kinds h)"
    and "kind_tag h record \<in> {XLOG_BTREE_SPLIT_L h, XLOG_BTREE_SPLIT_R h,
           XLOG_BTREE_SPLIT_L_ROOT h, XLOG_BTREE_SPLIT_R_ROOT h}"
    and "as_xl_btree_split ly (XLogRecGetData record) =
          \<lparr>split_node = n, split_leftsib = 10, split_rightsib = 11, split_rnext = 12,
           split_level = 0, split_firstright = 4\<rparr>"
  shows "btree_desc h ly buf record =
           buf @ ''rel '' @ fmt_locator n
             @ '' left 10, right 11, next 12, level 0, firstright 4''"
  using assms(3)
  by (simp add: btree_desc_decode btree_decode_split [OF assms(1,2)] fmt_numerals)

lemma sample_split_kind:
  "kind_tag sample_consts split_record \<in>
     {XLOG_BTREE_SPLIT_L sample_consts, XLOG_BTREE_SPLIT_R sample_consts,
      XLOG_BTREE_SPLIT_L_ROOT sample_consts, XLOG_BTREE_SPLIT_R_ROOT sample_consts}"
  by (simp add: kind_tag_def sample_consts_def split_record_def)

lemma sample_split_header:
  "as_xl_btree_split packed_layout (XLogRecGetData split_record) =
     \<lparr>split_node = \<lparr>spcNode = 1663, dbNode = 12345, relNode = 67890\<rparr>,
      split_leftsib = 10, split_rightsib = 11, split_rnext = 12,
      split_level = 0, split_firstright = 4\<rparr>"
  by (simp add: packed_layout_def XLogRecGetData_def split_record_def
      rd_RelFileNode_def le32_def le16_def mem_of_def locator_bytes_def)

theorem split_scenario_witness:
  "distinct (btree_kinds sample_consts)
    \<and> kind_tag sample_consts split_record \<in>
         {XLOG_BTREE_SPLIT_L sample_consts, XLOG_BTREE_SPLIT_R sample_consts,
          XLOG_BTREE_SPLIT_L_ROOT sample_consts, XLOG_BTREE_SPLIT_R_ROOT sample_consts}
    \<and> btree_desc sample_consts packed_layout [] split_record
         = ''rel 1663/12345/67890 left 10, right 11, next 12, level 0, firstright 4''"
  using split_scenario [OF distinct_sample_btree sample_split_kind sample_split_header, of "[]"]
    distinct_sample_btree sample_split_kind
  by (simp add: fmt_locator_def fmt_numerals)

section \<open>Output and identification\<close>

lemma btree_format_nonempty: "btree_format x \<noteq> []"
  by (cases x) simp_all

lemma gist_format_nonempty: "gist_format x \<noteq> []"
  by (cases x) simp_all

lemma btree_decode_None_iff:
  "btree_decode h ly record = None \<longleftrightarrow> btree_identify h (kind_tag h record) = None"
  by (simp add: btree_decode_def btree_identify_def Let_def)

lemma gist_decode_None_iff:
  "gist_decode h ly record = None \<longleftrightarrow> gist_identify h (kind_tag h record) = None"
  by (simp add: gist_decode_def gist_identify_def Let_def)

lemma btree_desc_changes_iff:
  "btree_desc h ly buf record \<noteq> buf \<longleftrightarrow> btree_decode h ly record \<noteq> None"
  by (cases "btree_decode h ly record") (simp_all add: btree_desc_decode btree_format_nonempty)

lemma gist_desc_changes_iff:
  "gist_desc h ly buf record \<noteq> buf \<longleftrightarrow> gist_decode h ly record \<noteq> None"
  by (cases "gist_decode h ly record") (simp_all add: gist_desc_decode gist_format_nonempty)

lemma and_not_mask_self:
  fixes k m :: uint8
  assumes "k AND m = 0"
  shows "k AND NOT m = k"
proof (rule bit_eqI)
  fix n
  have "\<not> bit (k AND m) n" using assms by simp
  then have "\<not> (bit k n \<and> bit m n)" by (simp add: bit_and_iff)
  then show "bit (k AND NOT m) n = bit k n"
    by (auto simp add: bit_and_iff bit_not_iff dest: bit_imp_possible_bit)
qed

lemma btree_desc_identify:
  "btree_desc h ly buf record \<noteq> buf \<longleftrightarrow> btree_identify h (kind_tag h record) \<noteq> None"
  by (simp only: btree_desc_changes_iff btree_decode_None_iff)

lemma gist_desc_identify:
  "gist_desc h ly buf record \<noteq> buf \<longleftrightarrow> gist_identify h (kind_tag h record) \<noteq> None"
  by (simp only: gist_desc_changes_iff gist_decode_None_iff)

lemma kind_tag_of_clear_tag:
  assumes "k AND XLR_INFO_MASK h = 0"
  shows "kind_tag h \<lparr>xl_info = k, xl_len = 0, xl_data = (\<lambda>i. 0)\<rparr> = k"
  using assms by (simp add: kind_tag_def and_not_mask_self)

lemma btree_formattable_eq:
  assumes "tags_clear_of_mask h"
  shows "btree_formattable h ly = btree_identifiable h"
proof (rule set_eqI)
  fix k
  show "k \<in> btree_formattable h ly \<longleftrightarrow> k \<in> btree_identifiable h"
  proof
    assume "k \<in> btree_formattable h ly"
    then obtain r where "kind_tag h r = k" and "btree_desc h ly [] r \<noteq> []"
      by (auto simp add: btree_formattable_def)
    then show "k \<in> btree_identifiable h"
      using btree_desc_identify [of h ly "[]" r] by (simp add: btree_identifiable_def)
  next
    assume "k \<in> btree_identifiable h"
    then have id: "btree_identify h k \<noteq> None" by (simp add: btree_identifiable_def)
    then have "k \<in> set (btree_kinds h)" by (simp only: btree_identify_iff)
    with assms have "k AND XLR_INFO_MASK h = 0"
      by (simp add: tags_clear_of_mask_def list_all_iff)
    then have tag: "kind_tag h \<lparr>xl_info = k, xl_len = 0, xl_data = (\<lambda>i. 0)\<rparr> = k"
      by (rule kind_tag_of_clear_tag)
    with id have "btree_desc h ly [] \<lparr>xl_info = k, xl_len = 0, xl_data = (\<lambda>i. 0)\<rparr> \<noteq> []"
      by (simp add: btree_desc_identify)
    with tag show "k \<in> btree_formattable h ly"
      unfolding btree_formattable_def by blast
  qed
qed

lemma gist_formattable_eq:
  assumes "tags_clear_of_mask h"
  shows "gist_formattable h ly = gist_identifiable h"
proof (rule set_eqI)
  fix k
  show "k \<in> gist_formattable h ly \<longleftrightarrow> k \<in> gist_identifiable h"
  proof
    assume "k \<in> gist_formattable h ly"
    then obtain r where "kind_tag h r = k" and "gist_desc h ly [] r \<noteq> []"
      by (auto simp add: gist_formattable_def)
    then show "k \<in> gist_identifiable h"
      using gist_desc_identify [of h ly "[]" r] by (simp add: gist_identifiable_def)
  next
    assume "k \<in> gist_identifiable h"
    then have id: "gist_identify h k \<noteq> None" by (simp add: gist_identifiable_def)
    then have "k \<in> set (gist_kinds h)" by (simp only: gist_identify_iff)
    with assms have "k AND XLR_INFO_MASK h = 0"
      by (simp add: tags_clear_of_mask_def list_all_iff)
    then have tag: "kind_tag h \<lparr>xl_info = k, xl_len = 0, xl_data = (\<lambda>i. 0)\<rparr> = k"
      by (rule kind_tag_of_clear_tag)
    with id have "gist_desc h ly [] \<lparr>xl_info = k, xl_len = 0, xl_data = (\<lambda>i. 0)\<rparr> \<noteq> []"
      by (simp add: gist_desc_identify)
    with tag show "k \<in> gist_formattable h ly"
      unfolding gist_formattable_def by blast
  qed
qed

lemma sample_tags_clear: "tags_clear_of_mask sample_consts"
  by (simp add: tags_clear_of_mask_def btree_kinds_def gist_kinds_def sample_consts_def)

text \<open>
  C9. For each access method, a record's kind is formattable exactly when it is
  identifiable: the description routine appends text to the buffer if and only if the
  identify routine returns a name for the record's kind tag. With the tags clear of
  the masked bits, the set of kind tags that the description routine produces output
  for is the set of tags that the identify routine names.
\<close>

theorem formattable_iff_identifiable:
  "(btree_desc h ly buf record \<noteq> buf \<longleftrightarrow> btree_identify h (kind_tag h record) \<noteq> None)
    \<and> (gist_desc h ly buf record \<noteq> buf \<longleftrightarrow> gist_identify h (kind_tag h record) \<noteq> None)
    \<and> (tags_clear_of_mask h \<longrightarrow>
          btree_formattable h ly = btree_identifiable h
          \<and> gist_formattable h ly = gist_identifiable h)"
  using btree_desc_identify [of h ly buf "record"] gist_desc_identify [of h ly buf "record"]
    btree_formattable_eq [of h ly] gist_formattable_eq [of h ly]
  by blast

theorem formattable_iff_identifiable_witness:
  "tags_clear_of_mask sample_consts
    \<and> btree_formattable sample_consts packed_layout = btree_identifiable sample_consts
    \<and> gist_formattable sample_consts packed_layout = gist_identifiable sample_consts
    \<and> btree_desc sample_consts packed_layout [] insert_leaf_record \<noteq> []
    \<and> btree_identify sample_consts (kind_tag sample_consts insert_leaf_record) \<noteq> None"
  using formattable_iff_identifiable [of sample_consts packed_layout "[]" insert_leaf_record]
    sample_tags_clear sample_insert_leaf_kind
  by (simp add: btree_identify_def)

text \<open>
  The identify routines switch on their argument as it is, the description routines on
  \<open>xl_info\<close> with the masked bits cleared: a name is found for the kind tag of a
  record, not for an \<open>xl_info\<close> that has one of the masked bits set.
\<close>

lemma identify_takes_the_kind_tag:
  "btree_identify sample_consts (xl_info flagged_record) = None
    \<and> btree_identify sample_consts (kind_tag sample_consts flagged_record) = Some ''INSERT_LEAF''
    \<and> btree_desc sample_consts packed_layout [] flagged_record \<noteq> []"
proof -
  have k: "kind_tag sample_consts flagged_record = 0"
    by (simp add: kind_tag_def sample_consts_def flagged_record_def)
  have "btree_identify sample_consts 0 = Some ''INSERT_LEAF''"
    by (simp add: btree_identify_def sample_consts_def)
  moreover have "btree_identify sample_consts (xl_info flagged_record) = None"
    by (simp add: btree_identify_def sample_consts_def flagged_record_def)
  ultimately show ?thesis
    using btree_desc_identify [of sample_consts packed_layout "[]" flagged_record]
    by (simp add: k)
qed

section \<open>Frame\<close>

text \<open>
  C10. The description routines are append-only observers: after the call the record
  is as it was passed, and the buffer holds its former contents followed by the
  rendered text, which is the text the routine writes to an empty buffer.
\<close>

theorem desc_appends_only:
  "btree_desc_call h ly (buf, record) = (buf @ btree_desc h ly [] record, record)
    \<and> gist_desc_call h ly (buf, record) = (buf @ gist_desc h ly [] record, record)"
  by (simp add: btree_desc_call_def gist_desc_call_def btree_desc_decode gist_desc_decode)

section \<open>Short records\<close>

text \<open>
  The decoding is a cast of the data address. The length that the record states is
  never read.
\<close>

lemma btree_decode_xl_len:
  "btree_decode h ly (record\<lparr>xl_len := n\<rparr>) = btree_decode h ly record"
  by (simp add: btree_decode_def kind_tag_def XLogRecGetData_def)

lemma gist_decode_xl_len:
  "gist_decode h ly (record\<lparr>xl_len := n\<rparr>) = gist_decode h ly record"
  by (simp add: gist_decode_def kind_tag_def XLogRecGetData_def)

text \<open>
  C2, as the code has it. The description routines have no error result and make no
  length check: for every access method and kind the header is read through the cast
  whatever data length the record states, so the output is the same for every stated
  length.
\<close>

theorem desc_ignores_length:
  "btree_desc h ly buf (record\<lparr>xl_len := n\<rparr>) = btree_desc h ly buf record
    \<and> gist_desc h ly buf (record\<lparr>xl_len := n\<rparr>) = gist_desc h ly buf record"
  by (simp add: btree_desc_decode gist_desc_decode btree_decode_xl_len gist_decode_xl_len)


text \<open>
  A record that states no data at all is rendered from the 18 bytes that lie behind
  it; nothing is rejected as truncated.
\<close>

lemma sample_empty_kind:
  "kind_tag sample_consts empty_record = XLOG_BTREE_INSERT_LEAF sample_consts"
  by (simp add: kind_tag_def sample_consts_def empty_record_def)

lemma sample_empty_header:
  "as_xl_btree_insert packed_layout (XLogRecGetData empty_record) =
     \<lparr>target = \<lparr>node = \<lparr>spcNode = 1663, dbNode = 12345, relNode = 67890\<rparr>,
      tid = \<lparr>ip_blkid = 42, ip_posid = 3\<rparr>\<rparr>\<rparr>"
  by (simp add: packed_layout_def XLogRecGetData_def empty_record_def rd_btreetid_def
      rd_RelFileNode_def le32_def le16_def mem_of_def locator_bytes_def)

theorem short_record_counterexample:
  "xl_len empty_record = 0
    \<and> btree_desc sample_consts packed_layout [] empty_record
         = ''rel 1663/12345/67890; tid 42/3''"
  by (simp add: btree_desc_decode btree_decode_insert_leaf [OF sample_empty_kind]
      sample_empty_header fmt_locator_def fmt_item_def fmt_numerals)
    (simp add: empty_record_def)

section \<open>Replay: position and idempotency\<close>

lemma handlerFor_recognized:
  "handlerFor h (entry_am e) (kind_tag h (entry_rec e)) =
     (if recognized h e then Inr (entry_am e)
      else case entry_am e of OtherAccessMethod n \<Rightarrow> Inl UnknownAccessMethod
           | _ \<Rightarrow> Inl UnknownKind)"
  by (cases "entry_am e") (simp_all add: handlerFor_def recognized_def)

lemma replay_unrecognized_kind:
  assumes "entry_am e = OrderedTree \<or> entry_am e = HierarchicalTree" and "\<not> recognized h e"
  shows "replay h ly redo active e pg = Inl UnknownKind"
  using assms by (auto simp add: replay_def handlerFor_recognized)
























section \<open>Replay: the reuse guard\<close>









section \<open>Unrecognized kinds\<close>

lemma btree_desc_unknown:
  "btree_identify h (kind_tag h record) = None \<Longrightarrow> btree_desc h ly buf record = buf"
  using btree_desc_changes_iff [of h ly buf "record"] by (simp add: btree_decode_None_iff)

lemma gist_desc_unknown:
  "gist_identify h (kind_tag h record) = None \<Longrightarrow> gist_desc h ly buf record = buf"
  using gist_desc_changes_iff [of h ly buf "record"] by (simp add: gist_decode_None_iff)

text \<open>
  C6, as the code has it. For a kind tag outside the closed enumeration of a
  recognized access method the description routine does not abort and appends nothing:
  the buffer is left as it was, the \<^verbatim>\<open>switch\<close> having no default case. That the kind
  is unrecognized shows only in the identify routine returning \<open>None\<close>. Replay of the
  same record, in the replay engine modelled from the specification, is fatal.
\<close>

theorem unknown_kind_desc_silent_replay_fatal:
  "(btree_identify h (kind_tag h record) = None \<longrightarrow>
      btree_desc h ly buf record = buf
      \<and> replay h ly redo active
            \<lparr>entry_am = OrderedTree, entry_pos = pos, entry_rec = record\<rparr> pg
          = Inl UnknownKind)
    \<and> (gist_identify h (kind_tag h record) = None \<longrightarrow>
      gist_desc h ly buf record = buf
      \<and> replay h ly redo active
            \<lparr>entry_am = HierarchicalTree, entry_pos = pos, entry_rec = record\<rparr> pg
          = Inl UnknownKind)"
  by (simp add: btree_desc_unknown gist_desc_unknown replay_unrecognized_kind recognized_def)

lemma sample_unknown_kind: "kind_tag sample_consts unknown_record = 0xE0"
  by (simp add: kind_tag_def sample_consts_def unknown_record_def)

lemma sample_unknown_btree: "btree_identify sample_consts (kind_tag sample_consts unknown_record) = None"
  unfolding sample_unknown_kind by (simp add: btree_identify_def sample_consts_def)

lemma sample_unknown_gist: "gist_identify sample_consts (kind_tag sample_consts unknown_record) = None"
  unfolding sample_unknown_kind by (simp add: gist_identify_def sample_consts_def)

theorem unknown_kind_desc_silent_replay_fatal_witness:
  "btree_identify sample_consts (kind_tag sample_consts unknown_record) = None
    \<and> gist_identify sample_consts (kind_tag sample_consts unknown_record) = None
    \<and> btree_desc sample_consts packed_layout ''btree: '' unknown_record = ''btree: ''
    \<and> gist_desc sample_consts packed_layout ''gist: '' unknown_record = ''gist: ''
    \<and> replay sample_consts packed_layout sample_redo []
         \<lparr>entry_am = OrderedTree, entry_pos = 8, entry_rec = unknown_record\<rparr>
         (sample_page 7 Normal) = Inl UnknownKind
    \<and> replay sample_consts packed_layout sample_redo []
         \<lparr>entry_am = HierarchicalTree, entry_pos = 8, entry_rec = unknown_record\<rparr>
         (sample_page 7 Normal) = Inl UnknownKind"
  using unknown_kind_desc_silent_replay_fatal [of sample_consts unknown_record packed_layout
      "''btree: ''" sample_redo "[]" 8 "sample_page 7 Normal"]
    unknown_kind_desc_silent_replay_fatal [of sample_consts unknown_record packed_layout
      "''gist: ''" sample_redo "[]" 8 "sample_page 7 Normal"]
    sample_unknown_btree sample_unknown_gist
  by simp

text \<open>
  No marked output for the tag \<open>0xE0\<close>: both routines leave an empty buffer empty.
\<close>

theorem unknown_kind_counterexample:
  "btree_identify sample_consts (kind_tag sample_consts unknown_record) = None
    \<and> btree_desc sample_consts packed_layout [] unknown_record = []
    \<and> gist_identify sample_consts (kind_tag sample_consts unknown_record) = None
    \<and> gist_desc sample_consts packed_layout [] unknown_record = []"
  by (simp add: sample_unknown_btree sample_unknown_gist btree_desc_unknown gist_desc_unknown)

section \<open>What the rendering contains\<close>








section \<open>Determinism and completeness of the rendering\<close>













end
